theory Spec2Isabelle
  imports Main
begin

section \<open>JavaScript values, property lookup and the persisted slot\<close>

text \<open>
  The session manager of \<^verbatim>\<open>src/contexts/AuthContext.tsx\<close> keeps four pieces of React
  state (\<^verbatim>\<open>user\<close>, \<^verbatim>\<open>authUser\<close>, \<^verbatim>\<open>isLoading\<close>, \<^verbatim>\<open>error\<close>) and one
  \<^verbatim>\<open>localStorage\<close> slot named \<^verbatim>\<open>demoUser\<close>. TypeScript types are erased at run time
  and \<^verbatim>\<open>JSON.parse\<close> returns \<^verbatim>\<open>any\<close>, so the value held in \<^verbatim>\<open>user\<close> is modelled as an
  untyped JavaScript value. Numbers are restricted to integers; no operation of the
  module computes with them.
\<close>

datatype jsval =
    JUndefined
  | JNull
  | JBool bool
  | JNum int
  | JStr string
  | JArr "jsval list"
  | JObj "(string \<times> jsval) list"
  | JFunction string

text \<open>JavaScript truthiness, as tested by \<^verbatim>\<open>if (v)\<close> and \<^verbatim>\<open>a && v\<close>.\<close>

fun truthy :: "jsval \<Rightarrow> bool" where
  "truthy JUndefined = False"
| "truthy JNull = False"
| "truthy (JBool b) = b"
| "truthy (JNum n) = (n \<noteq> 0)"
| "truthy (JStr s) = (s \<noteq> [])"
| "truthy (JArr xs) = True"
| "truthy (JObj ps) = True"
| "truthy (JFunction f) = True"

text \<open>
  \<^verbatim>\<open>obj[key]\<close> on an object literal: an own property wins; otherwise the lookup walks
  to \<^verbatim>\<open>Object.prototype\<close>, whose members are functions, except the accessor
  \<^verbatim>\<open>__proto__\<close>, which yields \<^verbatim>\<open>Object.prototype\<close> itself (an object without
  enumerable properties); any other key reads as \<^verbatim>\<open>undefined\<close>.
\<close>

definition object_prototype_functions :: "string list" where
  "object_prototype_functions =
     [''constructor'', ''hasOwnProperty'', ''isPrototypeOf'', ''propertyIsEnumerable'',
      ''toLocaleString'', ''toString'', ''valueOf'', ''__defineGetter__'',
      ''__defineSetter__'', ''__lookupGetter__'', ''__lookupSetter__'']"

definition get_property :: "(string \<times> jsval) list \<Rightarrow> string \<Rightarrow> jsval" where
  "get_property props k =
     (case map_of props k of
        Some v \<Rightarrow> v
      | None \<Rightarrow>
          if k \<in> set object_prototype_functions then JFunction k
          else if k = ''__proto__'' then JObj []
          else JUndefined)"

text \<open>
  The text stored in the slot is classified by what \<^verbatim>\<open>JSON.parse\<close> does with it:
  \<open>Unparsable s\<close> is a text \<open>s\<close> that \<^verbatim>\<open>JSON.parse\<close> rejects with a
  \<^verbatim>\<open>SyntaxError\<close> (the empty text is one of them), and \<open>Serialized v\<close> is a text
  that \<^verbatim>\<open>JSON.parse\<close> maps to the value \<open>v\<close>.
\<close>

datatype slot_text = Unparsable string | Serialized jsval

text \<open>\<^verbatim>\<open>if (demoUser)\<close> on the string read from the slot: only the empty string is falsy.\<close>

fun text_truthy :: "slot_text \<Rightarrow> bool" where
  "text_truthy (Unparsable s) = (s \<noteq> [])"
| "text_truthy (Serialized v) = True"

text \<open>\<^verbatim>\<open>JSON.parse\<close>: \<open>None\<close> stands for the thrown \<^verbatim>\<open>SyntaxError\<close>.\<close>

fun JSON_parse :: "slot_text \<Rightarrow> jsval option" where
  "JSON_parse (Unparsable s) = None"
| "JSON_parse (Serialized v) = Some v"

text \<open>
  \<^verbatim>\<open>JSON.stringify\<close> drops properties whose value is \<^verbatim>\<open>undefined\<close> or a function and
  writes \<^verbatim>\<open>null\<close> for such elements of an array.
\<close>

fun serializable :: "jsval \<Rightarrow> bool" where
  "serializable JUndefined = False"
| "serializable (JFunction f) = False"
| "serializable v = True"

fun json_image :: "jsval \<Rightarrow> jsval" where
  "json_image (JArr xs) = JArr (map (\<lambda>x. if serializable x then json_image x else JNull) xs)"
| "json_image (JObj ps) =
     JObj (map (\<lambda>p. (fst p, json_image (snd p))) (filter (\<lambda>p. serializable (snd p)) ps))"
| "json_image v = v"

text \<open>
  \<^verbatim>\<open>localStorage.setItem('demoUser', JSON.stringify(v))\<close>: for \<^verbatim>\<open>undefined\<close> and for a
  function \<^verbatim>\<open>JSON.stringify\<close> returns \<^verbatim>\<open>undefined\<close>, which \<^verbatim>\<open>setItem\<close> stores as the
  nine-letter text \<^verbatim>\<open>undefined\<close>; that text is not JSON.
\<close>

definition JSON_stringify :: "jsval \<Rightarrow> slot_text" where
  "JSON_stringify v =
     (if serializable v then Serialized (json_image v) else Unparsable ''undefined'')"

text \<open>\<^verbatim>\<open>String.prototype.includes\<close>: the argument occurs as a contiguous run.\<close>

fun starts_with :: "string \<Rightarrow> string \<Rightarrow> bool" where
  "starts_with s [] = True"
| "starts_with [] (c # cs) = False"
| "starts_with (x # xs) (c # cs) = (x = c \<and> starts_with xs cs)"

fun str_includes :: "string \<Rightarrow> string \<Rightarrow> bool" where
  "str_includes [] sub = (sub = [])"
| "str_includes (x # xs) sub = (starts_with (x # xs) sub \<or> str_includes xs sub)"

text \<open>The decimal text of a number, as a template literal produces it.\<close>

definition digit_char :: "nat \<Rightarrow> char" where
  "digit_char d = ''0123456789'' ! d"

fun show_nat :: "nat \<Rightarrow> string" where
  "show_nat n = (if n < 10 then [digit_char n] else show_nat (n div 10) @ [digit_char (n mod 10)])"

definition show_int :: "int \<Rightarrow> string" where
  "show_int i = (if i < 0 then CHR ''-'' # show_nat (nat (- i)) else show_nat (nat i))"

section \<open>The identity provider and the backing store\<close>

text \<open>
  Modelled from the spec: the module \<^verbatim>\<open>src/lib/supabase\<close> (the wrappers \<^verbatim>\<open>signIn\<close>,
  \<^verbatim>\<open>signOut\<close>, \<^verbatim>\<open>signUp\<close>, \<^verbatim>\<open>getUserProfile\<close>, \<^verbatim>\<open>createUserProfile\<close>, the client
  \<^verbatim>\<open>supabase\<close> and the flag \<^verbatim>\<open>isSupabaseConfigured\<close>) is not among the sources. Its
  interface is taken from section 6 of the specification and from the way the callers
  destructure the results: every call resolves to a result wrapper with an optional
  error, and no call rejects. An error is represented by its \<^verbatim>\<open>message\<close>. The answers
  of the provider are parameters of each operation.
\<close>

datatype AuthUser = AuthUser (uid: string)

text \<open>
  Modelled from the spec: the answer of \<^verbatim>\<open>signUp(email, password, profileSeed)\<close>,
  read by the caller as \<^verbatim>\<open>data.user?.id\<close> and \<^verbatim>\<open>error\<close>.
\<close>

record signup_reply =
  su_user_id :: "string option"
  su_error :: "string option"

text \<open>
  Modelled from the spec: the answer of \<^verbatim>\<open>getUserProfile(id)\<close>, read by the caller
  as \<^verbatim>\<open>data\<close> and \<^verbatim>\<open>error\<close>. The answers of \<^verbatim>\<open>signIn\<close>,
  \<^verbatim>\<open>createUserProfile\<close> and \<^verbatim>\<open>signOut\<close> are read for their \<^verbatim>\<open>error\<close>
  alone and are an optional message.
\<close>

record profile_reply =
  gp_data :: jsval
  gp_error :: "string option"

text \<open>Every call that leaves the module, with its arguments and the answer it got.\<close>

datatype io =
    IO_getSession "AuthUser option"
  | IO_getUserProfile string profile_reply
  | IO_signIn string string "string option"
  | IO_signUp string string "(string \<times> jsval) list" signup_reply
  | IO_createUserProfile "(string \<times> jsval) list" "string option"
  | IO_signOut "string option"

text \<open>
  The account ids the provider has reported as created. The interface has no operation
  that deletes an account, so an account in this list exists from then on.
\<close>

fun remote_accounts :: "io list \<Rightarrow> string list" where
  "remote_accounts [] = []"
| "remote_accounts (IO_signUp e p seed r # rest) =
     (case su_error r of
        Some m \<Rightarrow> remote_accounts rest
      | None \<Rightarrow> (case su_user_id r of
                   Some u \<Rightarrow> u # remote_accounts rest
                 | None \<Rightarrow> remote_accounts rest))"
| "remote_accounts (c # rest) = remote_accounts rest"

section \<open>The session manager\<close>

text \<open>
  What the module is loaded into: the flag \<^verbatim>\<open>isSupabaseConfigured\<close>, the six time
  stamps that \<^verbatim>\<open>new Date().toISOString()\<close> returns while the module-level
  constant \<^verbatim>\<open>demoUsers\<close> is evaluated, and what an inherited member of
  \<^verbatim>\<open>Object.prototype\<close> returns when React calls it, without a receiver, on the
  previous profile (see \<open>setUser\<close> below).
\<close>

record env =
  isSupabaseConfigured :: bool
  load_stamps :: "nat \<Rightarrow> string"
  updater_result :: "string \<Rightarrow> jsval \<Rightarrow> jsval"

text \<open>The clock readings of one \<^verbatim>\<open>signUp\<close> call.\<close>

record clock =
  Date_now :: int
  created_stamp :: string
  updated_stamp :: string

text \<open>
  The observable state, the slot, whether the change-notification handler is
  registered, and the log of outside calls.
\<close>

record world =
  user :: jsval
  authUser :: "AuthUser option"
  isLoading :: bool
  error :: "string option"
  demoUser_slot :: "slot_text option"
  subscribed :: bool
  calls :: "io list"

text \<open>The \<^verbatim>\<open>useState\<close> initial values, over a given slot content.\<close>

definition initial_world :: "slot_text option \<Rightarrow> world" where
  "initial_world slot =
     \<lparr>user = JNull, authUser = None, isLoading = True, error = None,
      demoUser_slot = slot, subscribed = False, calls = []\<rparr>"

definition record_call :: "io \<Rightarrow> world \<Rightarrow> world" where
  "record_call c w = w\<lparr>calls := calls w @ [c]\<rparr>"

definition demoUsers :: "env \<Rightarrow> (string \<times> jsval) list" where
  "demoUsers cfg =
     [(''admin@demo.com'', JObj
        [(''id'', JStr ''demo-admin-id''),
         (''email'', JStr ''admin@demo.com''),
         (''first_name'', JStr ''League''),
         (''last_name'', JStr ''Administrator''),
         (''role'', JStr ''admin''),
         (''gym_id'', JNull),
         (''phone'', JNull),
         (''date_of_birth'', JNull),
         (''is_active'', JBool True),
         (''created_at'', JStr (load_stamps cfg 0)),
         (''updated_at'', JStr (load_stamps cfg 1))]),
      (''coach@demo.com'', JObj
        [(''id'', JStr ''demo-coach-id''),
         (''email'', JStr ''coach@demo.com''),
         (''first_name'', JStr ''Sarah''),
         (''last_name'', JStr ''Johnson''),
         (''role'', JStr ''coach''),
         (''gym_id'', JStr ''demo-gym-id''),
         (''phone'', JNull),
         (''date_of_birth'', JNull),
         (''is_active'', JBool True),
         (''created_at'', JStr (load_stamps cfg 2)),
         (''updated_at'', JStr (load_stamps cfg 3))]),
      (''gymnast@demo.com'', JObj
        [(''id'', JStr ''demo-gymnast-id''),
         (''email'', JStr ''gymnast@demo.com''),
         (''first_name'', JStr ''Emma''),
         (''last_name'', JStr ''Davis''),
         (''role'', JStr ''gymnast''),
         (''gym_id'', JStr ''demo-gym-id''),
         (''phone'', JNull),
         (''date_of_birth'', JNull),
         (''is_active'', JBool True),
         (''created_at'', JStr (load_stamps cfg 4)),
         (''updated_at'', JStr (load_stamps cfg 5))])]"

text \<open>
  \<^verbatim>\<open>loadUserProfile\<close>: one read of the backing store; an error sets the error
  descriptor, a truthy row replaces the profile, and the loading flag is cleared in
  every case (\<^verbatim>\<open>finally\<close>).
\<close>

definition loadUserProfile :: "string \<Rightarrow> profile_reply \<Rightarrow> world \<Rightarrow> world" where
  "loadUserProfile userId r w =
     (let w1 = record_call (IO_getUserProfile userId r) w;
          w2 = (case gp_error r of
                  Some m \<Rightarrow> w1\<lparr>error := Some ''Failed to load user profile''\<rparr>
                | None \<Rightarrow> if truthy (gp_data r) then w1\<lparr>user := gp_data r\<rparr> else w1)
      in w2\<lparr>isLoading := False\<rparr>)"

text \<open>
  The callback given to \<^verbatim>\<open>supabase.auth.onAuthStateChange\<close>. Its argument is
  \<^verbatim>\<open>session?.user\<close>; the event name is only logged.
\<close>

definition onAuthStateChange_handler ::
  "AuthUser option \<Rightarrow> profile_reply \<Rightarrow> world \<Rightarrow> world" where
  "onAuthStateChange_handler session_user r w =
     (case session_user of
        Some u \<Rightarrow> loadUserProfile (uid u) r (w\<lparr>authUser := Some u\<rparr>)
      | None \<Rightarrow> w\<lparr>authUser := None, user := JNull, isLoading := False\<rparr>)"

text \<open>
  The mount effect of \<^verbatim>\<open>AuthProvider\<close>. A truthy slot text that parses is installed as
  the profile and the effect returns at once, before the session lookup and before the
  handler is registered. A text that does not parse is removed from the slot. Otherwise
  the effect asks the provider for the current session and registers the handler; the
  continuation of \<^verbatim>\<open>getSession\<close> is run here in one piece with the effect.
\<close>

definition query_provider :: "AuthUser option \<Rightarrow> profile_reply \<Rightarrow> world \<Rightarrow> world" where
  "query_provider session_user r w =
     (let w1 = (record_call (IO_getSession session_user) w)\<lparr>subscribed := True\<rparr>
      in case session_user of
           Some u \<Rightarrow> loadUserProfile (uid u) r (w1\<lparr>authUser := Some u\<rparr>)
         | None \<Rightarrow> w1\<lparr>isLoading := False\<rparr>)"

definition initialize :: "AuthUser option \<Rightarrow> profile_reply \<Rightarrow> world \<Rightarrow> world" where
  "initialize session_user r w =
     (case demoUser_slot w of
        None \<Rightarrow> query_provider session_user r w
      | Some t \<Rightarrow>
          if text_truthy t then
            (case JSON_parse t of
               Some parsedUser \<Rightarrow> w\<lparr>user := parsedUser, isLoading := False\<rparr>
             | None \<Rightarrow> query_provider session_user r (w\<lparr>demoUser_slot := None\<rparr>))
          else query_provider session_user r w)"

text \<open>
  What the caller of an \<^verbatim>\<open>async\<close> operation sees: the promise resolves, or it
  rejects with an \<^verbatim>\<open>Error\<close> carrying a message.
\<close>

datatype outcome = Resolved | Rejected string

text \<open>The \<^verbatim>\<open>catch\<close> block shared by the provider paths of \<^verbatim>\<open>login\<close> and \<^verbatim>\<open>signUp\<close>.\<close>

definition fail_with :: "string \<Rightarrow> world \<Rightarrow> outcome \<times> world" where
  "fail_with m w = (Rejected m, w\<lparr>error := Some m, isLoading := False\<rparr>)"

text \<open>
  The state setter \<^verbatim>\<open>setUser\<close> on a value that \<^verbatim>\<open>login\<close> or \<^verbatim>\<open>signUp\<close> hands
  it. React takes a function argument as an updater: it does not store the function but
  calls it on the previous state and installs what the call returns. The only functions
  that can get here are the inherited members of \<^verbatim>\<open>Object.prototype\<close>, found by
  \<^verbatim>\<open>demoUsers[email]\<close> when the address names one of them; what they return is the
  parameter \<open>updater_result\<close>. Where such a call throws, the render of
  \<^verbatim>\<open>AuthProvider\<close> fails; the model has no state for a failed render, and nothing
  below states the profile after such a login. The values that the mount effect and
  \<^verbatim>\<open>loadUserProfile\<close> give to the setter are read from JSON and are never functions.
\<close>

definition setUser :: "env \<Rightarrow> jsval \<Rightarrow> world \<Rightarrow> world" where
  "setUser cfg v w =
     (case v of
        JFunction k \<Rightarrow> w\<lparr>user := updater_result cfg k (user w)\<rparr>
      | _ \<Rightarrow> w\<lparr>user := v\<rparr>)"

text \<open>Installing a demo profile: \<^verbatim>\<open>setUser\<close>, \<^verbatim>\<open>localStorage.setItem\<close>, \<^verbatim>\<open>setIsLoading(false)\<close>.\<close>

definition enter_demo :: "env \<Rightarrow> jsval \<Rightarrow> world \<Rightarrow> outcome \<times> world" where
  "enter_demo cfg demoUser w =
     (Resolved,
      (setUser cfg demoUser w)\<lparr>demoUser_slot := Some (JSON_stringify demoUser),
                                 isLoading := False\<rparr>)"

definition login :: "env \<Rightarrow> string \<Rightarrow> string \<Rightarrow> string option \<Rightarrow> world \<Rightarrow> outcome \<times> world" where
  "login cfg email password signIn_reply w =
     (let w1 = w\<lparr>isLoading := True, error := None\<rparr>
      in if password = ''demo123'' \<and> truthy (get_property (demoUsers cfg) email) then
           enter_demo cfg (get_property (demoUsers cfg) email) w1
         else if \<not> isSupabaseConfigured cfg then
           (Rejected ''Supabase credentials are not configured.'',
            w1\<lparr>error := Some ''Supabase credentials are not configured.'', isLoading := False\<rparr>)
         else
           (let w2 = record_call (IO_signIn email password signIn_reply) w1
            in case signIn_reply of
                 Some m \<Rightarrow>
                   if str_includes m ''Email not confirmed'' \<and> password = ''demo123'' then
                     (if truthy (get_property (demoUsers cfg) email) then
                        enter_demo cfg (get_property (demoUsers cfg) email) w2
                      else fail_with m w2)
                   else fail_with m w2
               | None \<Rightarrow> (Resolved, w2)))"

text \<open>The profile seed and the profile row that \<^verbatim>\<open>signUp\<close> sends.\<close>

definition signUp_seed :: "string \<Rightarrow> string \<Rightarrow> string \<Rightarrow> (string \<times> jsval) list" where
  "signUp_seed email firstName lastName =
     [(''email'', JStr email), (''first_name'', JStr firstName),
      (''last_name'', JStr lastName), (''role'', JStr ''gymnast'')]"

definition signUp_row :: "string \<Rightarrow> string \<Rightarrow> string \<Rightarrow> string \<Rightarrow> (string \<times> jsval) list" where
  "signUp_row userId email firstName lastName =
     [(''id'', JStr userId), (''email'', JStr email), (''first_name'', JStr firstName),
      (''last_name'', JStr lastName), (''role'', JStr ''gymnast'')]"

text \<open>The profile that \<^verbatim>\<open>signUp\<close> synthesizes when no provider is configured.\<close>

definition signUp_demoUser :: "clock \<Rightarrow> string \<Rightarrow> string \<Rightarrow> string \<Rightarrow> jsval" where
  "signUp_demoUser clk email firstName lastName =
     JObj [(''id'', JStr (''demo-'' @ show_int (Date_now clk))),
           (''email'', JStr email),
           (''first_name'', JStr firstName),
           (''last_name'', JStr lastName),
           (''role'', JStr ''gymnast''),
           (''gym_id'', JNull),
           (''phone'', JNull),
           (''date_of_birth'', JNull),
           (''is_active'', JBool True),
           (''created_at'', JStr (created_stamp clk)),
           (''updated_at'', JStr (updated_stamp clk))]"

definition signUp ::
  "env \<Rightarrow> clock \<Rightarrow> string \<Rightarrow> string \<Rightarrow> string \<Rightarrow> string \<Rightarrow>
   signup_reply \<Rightarrow> string option \<Rightarrow> string option \<Rightarrow> world \<Rightarrow> outcome \<times> world" where
  "signUp cfg clk email password firstName lastName signUp_reply signIn_reply create_reply w =
     (let w1 = w\<lparr>isLoading := True, error := None\<rparr>
      in if \<not> isSupabaseConfigured cfg then
           enter_demo cfg (signUp_demoUser clk email firstName lastName) w1
         else
           (let w2 = record_call
                       (IO_signUp email password (signUp_seed email firstName lastName)
                          signUp_reply) w1
            in case su_error signUp_reply of
                 Some m \<Rightarrow> fail_with m w2
               | None \<Rightarrow>
                  (case su_user_id signUp_reply of
                     None \<Rightarrow> fail_with ''Sign up succeeded but no user ID returned'' w2
                   | Some userId \<Rightarrow>
                       if userId = [] then
                         fail_with ''Sign up succeeded but no user ID returned'' w2
                       else
                         (let w3 = record_call (IO_signIn email password signIn_reply) w2
                          in case signIn_reply of
                               Some m \<Rightarrow> fail_with m w3
                             | None \<Rightarrow>
                                (let w4 = record_call
                                            (IO_createUserProfile
                                               (signUp_row userId email firstName lastName)
                                               create_reply) w3
                                 in case create_reply of
                                      Some m \<Rightarrow> fail_with m w4
                                    | None \<Rightarrow> (Resolved, w4))))))"

text \<open>
  \<^verbatim>\<open>logout\<close>: it has no \<^verbatim>\<open>throw\<close> and no \<^verbatim>\<open>try\<close>; with a provider that answers by a
  result wrapper its promise always resolves.
\<close>

definition logout :: "string option \<Rightarrow> world \<Rightarrow> outcome \<times> world" where
  "logout signOut_reply w =
     (let w1 = w\<lparr>error := None\<rparr>;
          w2 = w1\<lparr>demoUser_slot := None\<rparr>;
          w3 = record_call (IO_signOut signOut_reply) w2;
          w4 = (case signOut_reply of Some m \<Rightarrow> w3\<lparr>error := Some m\<rparr> | None \<Rightarrow> w3)
      in (Resolved, w4\<lparr>user := JNull, authUser := None\<rparr>))"

section \<open>Runs of the session manager\<close>

text \<open>
  The things that can happen to a mounted \<^verbatim>\<open>AuthProvider\<close>: the mount effect, a change
  notification from the provider, and the three operations it exposes. Each one carries
  the answers the provider gives while it runs. A notification reaches the handler only
  after the mount effect has registered it. Every operation is taken to run to its end
  before the next one starts.
\<close>

datatype event =
    Mount "AuthUser option" profile_reply
  | AuthStateChange "AuthUser option" profile_reply
  | Login string string "string option"
  | SignUp clock string string string string signup_reply "string option" "string option"
  | Logout "string option"

fun step :: "env \<Rightarrow> world \<Rightarrow> event \<Rightarrow> world" where
  "step cfg w (Mount session_user r) = initialize session_user r w"
| "step cfg w (AuthStateChange session_user r) =
     (if subscribed w then onAuthStateChange_handler session_user r w else w)"
| "step cfg w (Login email password signIn_reply) =
     snd (login cfg email password signIn_reply w)"
| "step cfg w (SignUp clk email password firstName lastName r1 r2 r3) =
     snd (signUp cfg clk email password firstName lastName r1 r2 r3 w)"
| "step cfg w (Logout signOut_reply) = snd (logout signOut_reply w)"

definition run :: "env \<Rightarrow> event list \<Rightarrow> world \<Rightarrow> world" where
  "run cfg evs w = foldl (step cfg) w evs"

text \<open>The events through which the provider reports a live session.\<close>

fun reports_session :: "event \<Rightarrow> bool" where
  "reports_session (Mount (Some u) r) = True"
| "reports_session (AuthStateChange (Some u) r) = True"
| "reports_session ev = False"

section \<open>Notions of the specification\<close>

text \<open>
  The specification names states of the session manager without defining them over the
  observable tuple. \<open>Unauthenticated\<close> is read as it is glossed there
  (\<^verbatim>\<open>identity = null\<close>, \<^verbatim>\<open>profile = null\<close>); \<open>DemoActive\<close> as: the slot holds a
  readable text and the profile is the value it reads to.
\<close>

definition Unauthenticated :: "world \<Rightarrow> bool" where
  "Unauthenticated w = (user w = JNull \<and> authUser w = None)"

definition DemoActive :: "world \<Rightarrow> bool" where
  "DemoActive w =
     (case demoUser_slot w of
        None \<Rightarrow> False
      | Some t \<Rightarrow> truthy (user w) \<and> JSON_parse t = Some (user w))"

text \<open>Reading a field of a profile value.\<close>

definition field :: "jsval \<Rightarrow> string \<Rightarrow> jsval" where
  "field v k = (case v of JObj ps \<Rightarrow> get_property ps k | _ \<Rightarrow> JUndefined)"

text \<open>Shapes of field values.\<close>

fun is_string :: "jsval \<Rightarrow> bool" where
  "is_string (JStr s) = True"
| "is_string v = False"

fun is_bool :: "jsval \<Rightarrow> bool" where
  "is_bool (JBool b) = True"
| "is_bool v = False"

definition optional_string :: "jsval option \<Rightarrow> bool" where
  "optional_string x = (case x of None \<Rightarrow> False | Some v \<Rightarrow> v = JNull \<or> is_string v)"

definition required_string :: "jsval option \<Rightarrow> bool" where
  "required_string x = (case x of None \<Rightarrow> False | Some v \<Rightarrow> is_string v)"

text \<open>
  Modelled from the spec: the row type of \<^verbatim>\<open>user_profiles\<close> (\<^verbatim>\<open>src/types/database\<close>)
  is not among the sources. A well-formed profile is an object with the fields that
  section 3 of the specification lists.
\<close>

definition well_formed_profile :: "jsval \<Rightarrow> bool" where
  "well_formed_profile v =
     (case v of
        JObj ps \<Rightarrow>
          required_string (map_of ps ''id'') \<and>
          required_string (map_of ps ''email'') \<and>
          required_string (map_of ps ''first_name'') \<and>
          required_string (map_of ps ''last_name'') \<and>
          map_of ps ''role'' \<in> Some ` JStr ` {''admin'', ''coach'', ''gym_admin'', ''gymnast''} \<and>
          optional_string (map_of ps ''gym_id'') \<and>
          optional_string (map_of ps ''phone'') \<and>
          optional_string (map_of ps ''date_of_birth'') \<and>
          (case map_of ps ''is_active'' of None \<Rightarrow> False | Some b \<Rightarrow> is_bool b) \<and>
          required_string (map_of ps ''created_at'') \<and>
          required_string (map_of ps ''updated_at'')
      | _ \<Rightarrow> False)"

section \<open>Concrete inputs\<close>

definition sample_stamps :: "nat \<Rightarrow> string" where
  "sample_stamps i = ''2025-07-30T12:00:00.000Z''"

text \<open>
  \<^verbatim>\<open>Object.prototype.toString\<close> called without a receiver returns this text. The
  runs below log in with catalog addresses only and never apply an updater.
\<close>

definition sample_updater :: "string \<Rightarrow> jsval \<Rightarrow> jsval" where
  "sample_updater k previous = JStr ''[object Undefined]''"

definition provider_env :: env where
  "provider_env =
     \<lparr>isSupabaseConfigured = True, load_stamps = sample_stamps,
      updater_result = sample_updater\<rparr>"

definition demo_env :: env where
  "demo_env =
     \<lparr>isSupabaseConfigured = False, load_stamps = sample_stamps,
      updater_result = sample_updater\<rparr>"

definition sample_clock :: clock where
  "sample_clock =
     \<lparr>Date_now = 1753876800000, created_stamp = ''2025-07-30T12:00:00.000Z'',
      updated_stamp = ''2025-07-30T12:00:00.000Z''\<rparr>"


definition stored_profile :: jsval where
  "stored_profile =
     JObj [(''id'', JStr ''u-1''), (''email'', JStr ''pat@gym.org''),
           (''first_name'', JStr ''Pat''), (''last_name'', JStr ''Lee''),
           (''role'', JStr ''gymnast''), (''gym_id'', JNull), (''phone'', JNull),
           (''date_of_birth'', JNull), (''is_active'', JBool True),
           (''created_at'', JStr ''2025-07-01T08:00:00.000Z''),
           (''updated_at'', JStr ''2025-07-01T08:00:00.000Z'')]"

definition authenticated_world :: world where
  "authenticated_world =
     \<lparr>user = stored_profile, authUser = Some (AuthUser ''u-1''), isLoading = False,
      error = None, demoUser_slot = None, subscribed = True,
      calls = [IO_getSession (Some (AuthUser ''u-1'')),
               IO_getUserProfile ''u-1'' \<lparr>gp_data = stored_profile, gp_error = None\<rparr>]\<rparr>"

definition new_account :: signup_reply where
  "new_account = \<lparr>su_user_id = Some ''acct-1'', su_error = None\<rparr>"

text \<open>
  A provider session found at mount, followed by a login with the demo password for a
  catalog address.
\<close>

definition demo_login_over_session :: "event list" where
  "demo_login_over_session =
     [Mount (Some (AuthUser ''u-1'')) \<lparr>gp_data = stored_profile, gp_error = None\<rparr>,
      Login ''coach@demo.com'' ''demo123'' None]"

section \<open>Decimal texts determine their numbers\<close>

declare show_nat.simps [simp del]








section \<open>Facts about the catalog and the operations\<close>

lemma setUser_frame [simp]:
  "authUser (setUser cfg v w) = authUser w"
  "isLoading (setUser cfg v w) = isLoading w"
  "error (setUser cfg v w) = error w"
  "demoUser_slot (setUser cfg v w) = demoUser_slot w"
  "subscribed (setUser cfg v w) = subscribed w"
  "calls (setUser cfg v w) = calls w"
  by (cases v; simp add: setUser_def)+

lemma setUser_object [simp]: "setUser cfg (JObj ps) w = w\<lparr>user := JObj ps\<rparr>"
  by (simp add: setUser_def)

lemma catalog_keys:
  "fst ` set (demoUsers cfg) = {''admin@demo.com'', ''coach@demo.com'', ''gymnast@demo.com''}"
  by (auto simp: demoUsers_def)

lemma catalog_entry_object:
  "E \<in> fst ` set (demoUsers cfg) \<Longrightarrow> \<exists>ps. get_property (demoUsers cfg) E = JObj ps"
  unfolding catalog_keys by (auto simp: demoUsers_def get_property_def)

lemma catalog_entry_truthy:
  "E \<in> fst ` set (demoUsers cfg) \<Longrightarrow> truthy (get_property (demoUsers cfg) E)"
  unfolding catalog_keys by (auto simp: demoUsers_def get_property_def)

lemma catalog_entry_stringify:
  "E \<in> fst ` set (demoUsers cfg) \<Longrightarrow>
   JSON_stringify (get_property (demoUsers cfg) E) = Serialized (get_property (demoUsers cfg) E)"
  unfolding catalog_keys by (auto simp: demoUsers_def get_property_def JSON_stringify_def)

lemma signUp_provider_steps:
  assumes cfg: "isSupabaseConfigured cfg"
    and a: "su_error su = None" "su_user_id su = Some userId" "userId \<noteq> []"
  shows "signUp cfg clk email password firstName lastName su signIn_reply create_reply w =
     (case signIn_reply of
        Some m \<Rightarrow>
          (Rejected m,
           w\<lparr>isLoading := False, error := Some m,
              calls := calls w @
                [IO_signUp email password (signUp_seed email firstName lastName) su,
                 IO_signIn email password signIn_reply]\<rparr>)
      | None \<Rightarrow>
          (case create_reply of
             Some m \<Rightarrow>
               (Rejected m,
                w\<lparr>isLoading := False, error := Some m,
                   calls := calls w @
                     [IO_signUp email password (signUp_seed email firstName lastName) su,
                      IO_signIn email password None,
                      IO_createUserProfile (signUp_row userId email firstName lastName)
                        create_reply]\<rparr>)
           | None \<Rightarrow>
               (Resolved,
                w\<lparr>isLoading := True, error := None,
                   calls := calls w @
                     [IO_signUp email password (signUp_seed email firstName lastName) su,
                      IO_signIn email password None,
                      IO_createUserProfile (signUp_row userId email firstName lastName)
                        None]\<rparr>)))"
  using cfg a
  by (simp add: signUp_def record_call_def fail_with_def split: option.split)

lemma remote_accounts_append:
  "remote_accounts (xs @ ys) = remote_accounts xs @ remote_accounts ys"
  by (induction xs rule: remote_accounts.induct) (simp_all split: option.split)




lemma query_provider_slot: "demoUser_slot (query_provider s r w) = demoUser_slot w"
  by (simp add: query_provider_def loadUserProfile_def record_call_def Let_def
      split: option.split)

lemma login_identity: "authUser (snd (login cfg email password r w)) = authUser w"
  by (simp add: login_def enter_demo_def fail_with_def record_call_def Let_def
      split: option.split)

lemma signUp_identity:
  "authUser (snd (signUp cfg clk email password firstName lastName r1 r2 r3 w)) = authUser w"
  by (simp add: signUp_def enter_demo_def fail_with_def record_call_def Let_def
      split: option.split)

lemma loadUserProfile_identity: "authUser (loadUserProfile i r w) = authUser w"
  by (simp add: loadUserProfile_def record_call_def Let_def split: option.split)

lemma query_provider_identity:
  "authUser (query_provider None r w) = authUser w"
  by (simp add: query_provider_def record_call_def)

lemma step_identity:
  "authUser (step cfg w ev) \<noteq> None \<Longrightarrow> authUser w \<noteq> None \<or> reports_session ev"
proof (cases ev)
  case (Mount s r)
  then show "authUser (step cfg w ev) \<noteq> None \<Longrightarrow> authUser w \<noteq> None \<or> reports_session ev"
    by (cases s) (auto simp: initialize_def query_provider_identity split: option.splits if_splits)
next
  case (AuthStateChange s r)
  then show "authUser (step cfg w ev) \<noteq> None \<Longrightarrow> authUser w \<noteq> None \<or> reports_session ev"
    by (cases s) (auto simp: onAuthStateChange_handler_def split: if_splits)
next
  case (Login e p r)
  then show "authUser (step cfg w ev) \<noteq> None \<Longrightarrow> authUser w \<noteq> None \<or> reports_session ev"
    by (simp add: login_identity)
next
  case (SignUp clk e p f l r1 r2 r3)
  then show "authUser (step cfg w ev) \<noteq> None \<Longrightarrow> authUser w \<noteq> None \<or> reports_session ev"
    by (simp add: signUp_identity)
next
  case (Logout r)
  then show "authUser (step cfg w ev) \<noteq> None \<Longrightarrow> authUser w \<noteq> None \<or> reports_session ev"
    by (simp add: logout_def Let_def)
qed

lemma run_identity:
  "authUser (run cfg evs w) \<noteq> None \<Longrightarrow> authUser w \<noteq> None \<or> (\<exists>ev \<in> set evs. reports_session ev)"
proof (induction evs rule: rev_induct)
  case Nil
  then show ?case by (simp add: run_def)
next
  case (snoc ev evs)
  have "run cfg (evs @ [ev]) w = step cfg (run cfg evs w) ev" by (simp add: run_def)
  with snoc.prems have "authUser (run cfg evs w) \<noteq> None \<or> reports_session ev"
    using step_identity by metis
  with snoc.IH show ?case by auto
qed

section \<open>Sign-up through the provider\<close>

text \<open>
  Claim C1. With a provider configured, \<^verbatim>\<open>signUp\<close> makes its outside calls in the
  order create account (with the seed of address, names and role \<^verbatim>\<open>gymnast\<close>), sign in
  with the same credentials, create the profile row whose \<^verbatim>\<open>id\<close> is the id of the new
  account (with the same address, names and role), and stops at the first step that
  fails; the caller gets that
  step's error, the error descriptor holds it and the loading flag is cleared. Nothing
  is called after the failing step. In particular, when the profile row cannot be
  created, the operation rejects with that error while the account the provider
  reported in the first step is still among the remote accounts.
\<close>

theorem signUp_three_steps_no_rollback:
  assumes cfg: "isSupabaseConfigured cfg"
  shows
   "(su_error su = Some m \<longrightarrow>
       signUp cfg clk email password firstName lastName su r2 r3 w =
         (Rejected m,
          w\<lparr>isLoading := False, error := Some m,
             calls := calls w @
               [IO_signUp email password [(''email'', JStr email), (''first_name'', JStr firstName),
                  (''last_name'', JStr lastName), (''role'', JStr ''gymnast'')] su]\<rparr>))
    \<and> (su_error su = None \<and> (su_user_id su = None \<or> su_user_id su = Some []) \<longrightarrow>
       signUp cfg clk email password firstName lastName su r2 r3 w =
         (Rejected ''Sign up succeeded but no user ID returned'',
          w\<lparr>isLoading := False, error := Some ''Sign up succeeded but no user ID returned'',
             calls := calls w @
               [IO_signUp email password [(''email'', JStr email), (''first_name'', JStr firstName),
                  (''last_name'', JStr lastName), (''role'', JStr ''gymnast'')] su]\<rparr>))
    \<and> (su_error su = None \<and> su_user_id su = Some userId \<and> userId \<noteq> [] \<longrightarrow>
       signUp cfg clk email password firstName lastName su (Some m) r3 w =
         (Rejected m,
          w\<lparr>isLoading := False, error := Some m,
             calls := calls w @
               [IO_signUp email password [(''email'', JStr email), (''first_name'', JStr firstName),
                  (''last_name'', JStr lastName), (''role'', JStr ''gymnast'')] su,
                IO_signIn email password (Some m)]\<rparr>)
       \<and> signUp cfg clk email password firstName lastName su None (Some m) w =
         (Rejected m,
          w\<lparr>isLoading := False, error := Some m,
             calls := calls w @
               [IO_signUp email password [(''email'', JStr email), (''first_name'', JStr firstName),
                  (''last_name'', JStr lastName), (''role'', JStr ''gymnast'')] su,
                IO_signIn email password None,
                IO_createUserProfile [(''id'', JStr userId), (''email'', JStr email), (''first_name'', JStr firstName),
                   (''last_name'', JStr lastName), (''role'', JStr ''gymnast'')] (Some m)]\<rparr>)
       \<and> userId \<in> set (remote_accounts
            (calls (snd (signUp cfg clk email password firstName lastName su None (Some m) w))))
       \<and> fst (signUp cfg clk email password firstName lastName su None None w) = Resolved
       \<and> calls (snd (signUp cfg clk email password firstName lastName su None None w)) =
           calls w @
             [IO_signUp email password [(''email'', JStr email), (''first_name'', JStr firstName),
                  (''last_name'', JStr lastName), (''role'', JStr ''gymnast'')] su,
              IO_signIn email password None,
              IO_createUserProfile [(''id'', JStr userId), (''email'', JStr email), (''first_name'', JStr firstName),
                   (''last_name'', JStr lastName), (''role'', JStr ''gymnast'')] None])"
proof (intro conjI impI)
  assume "su_error su = Some m"
  then show "signUp cfg clk email password firstName lastName su r2 r3 w =
         (Rejected m,
          w\<lparr>isLoading := False, error := Some m,
             calls := calls w @
               [IO_signUp email password [(''email'', JStr email), (''first_name'', JStr firstName),
                  (''last_name'', JStr lastName), (''role'', JStr ''gymnast'')] su]\<rparr>)"
    using cfg by (simp add: signUp_def record_call_def fail_with_def signUp_seed_def)
next
  assume "su_error su = None \<and> (su_user_id su = None \<or> su_user_id su = Some [])"
  then show "signUp cfg clk email password firstName lastName su r2 r3 w =
         (Rejected ''Sign up succeeded but no user ID returned'',
          w\<lparr>isLoading := False, error := Some ''Sign up succeeded but no user ID returned'',
             calls := calls w @
               [IO_signUp email password [(''email'', JStr email), (''first_name'', JStr firstName),
                  (''last_name'', JStr lastName), (''role'', JStr ''gymnast'')] su]\<rparr>)"
    using cfg by (auto simp: signUp_def record_call_def fail_with_def signUp_seed_def)
next
  assume a: "su_error su = None \<and> su_user_id su = Some userId \<and> userId \<noteq> []"
  then have a1: "su_error su = None" and a2: "su_user_id su = Some userId"
    and a3: "userId \<noteq> []" by simp_all
  note raw = signUp_provider_steps [OF cfg a1 a2 a3]
  have steps: "signUp cfg clk email password firstName lastName su x y w =
     (case x of
        Some m \<Rightarrow>
          (Rejected m,
           w\<lparr>isLoading := False, error := Some m,
              calls := calls w @
                [IO_signUp email password [(''email'', JStr email), (''first_name'', JStr firstName),
                  (''last_name'', JStr lastName), (''role'', JStr ''gymnast'')] su,
                 IO_signIn email password x]\<rparr>)
      | None \<Rightarrow>
          (case y of
             Some m \<Rightarrow>
               (Rejected m,
                w\<lparr>isLoading := False, error := Some m,
                   calls := calls w @
                     [IO_signUp email password [(''email'', JStr email), (''first_name'', JStr firstName),
                  (''last_name'', JStr lastName), (''role'', JStr ''gymnast'')] su,
                      IO_signIn email password None,
                      IO_createUserProfile [(''id'', JStr userId), (''email'', JStr email), (''first_name'', JStr firstName),
                   (''last_name'', JStr lastName), (''role'', JStr ''gymnast'')] y]\<rparr>)
           | None \<Rightarrow>
               (Resolved,
                w\<lparr>isLoading := True, error := None,
                   calls := calls w @
                     [IO_signUp email password [(''email'', JStr email), (''first_name'', JStr firstName),
                  (''last_name'', JStr lastName), (''role'', JStr ''gymnast'')] su,
                      IO_signIn email password None,
                      IO_createUserProfile [(''id'', JStr userId), (''email'', JStr email), (''first_name'', JStr firstName),
                   (''last_name'', JStr lastName), (''role'', JStr ''gymnast'')]
                        None]\<rparr>)))" for x y
    by (cases x; cases y; simp add: raw signUp_seed_def signUp_row_def)
  show "signUp cfg clk email password firstName lastName su (Some m) r3 w =
         (Rejected m,
          w\<lparr>isLoading := False, error := Some m,
             calls := calls w @
               [IO_signUp email password [(''email'', JStr email), (''first_name'', JStr firstName),
                  (''last_name'', JStr lastName), (''role'', JStr ''gymnast'')] su,
                IO_signIn email password (Some m)]\<rparr>)"
    by (simp add: steps)
  show "signUp cfg clk email password firstName lastName su None (Some m) w =
         (Rejected m,
          w\<lparr>isLoading := False, error := Some m,
             calls := calls w @
               [IO_signUp email password [(''email'', JStr email), (''first_name'', JStr firstName),
                  (''last_name'', JStr lastName), (''role'', JStr ''gymnast'')] su,
                IO_signIn email password None,
                IO_createUserProfile [(''id'', JStr userId), (''email'', JStr email), (''first_name'', JStr firstName),
                   (''last_name'', JStr lastName), (''role'', JStr ''gymnast'')] (Some m)]\<rparr>)"
    by (simp add: steps)
  show "userId \<in> set (remote_accounts
            (calls (snd (signUp cfg clk email password firstName lastName su None (Some m) w))))"
    using a by (simp add: steps remote_accounts_append)
  show "fst (signUp cfg clk email password firstName lastName su None None w) = Resolved"
    by (simp add: steps)
  show "calls (snd (signUp cfg clk email password firstName lastName su None None w)) =
           calls w @
             [IO_signUp email password [(''email'', JStr email), (''first_name'', JStr firstName),
                  (''last_name'', JStr lastName), (''role'', JStr ''gymnast'')] su,
              IO_signIn email password None,
              IO_createUserProfile [(''id'', JStr userId), (''email'', JStr email), (''first_name'', JStr firstName),
                   (''last_name'', JStr lastName), (''role'', JStr ''gymnast'')] None]"
    by (simp add: steps)
qed

theorem signUp_three_steps_no_rollback_witness:
  "isSupabaseConfigured provider_env
   \<and> signUp provider_env sample_clock ''new@x.com'' ''demo123'' ''A'' ''B'' new_account None
       (Some ''duplicate key value violates unique constraint'') (initial_world None)
     = (Rejected ''duplicate key value violates unique constraint'',
        \<lparr>user = JNull, authUser = None, isLoading = False,
         error = Some ''duplicate key value violates unique constraint'',
         demoUser_slot = None, subscribed = False,
         calls = [IO_signUp ''new@x.com'' ''demo123''
                    [(''email'', JStr ''new@x.com''), (''first_name'', JStr ''A''),
                     (''last_name'', JStr ''B''), (''role'', JStr ''gymnast'')] new_account,
                  IO_signIn ''new@x.com'' ''demo123'' None,
                  IO_createUserProfile [(''id'', JStr ''acct-1''), (''email'', JStr ''new@x.com''),
                     (''first_name'', JStr ''A''), (''last_name'', JStr ''B''),
                     (''role'', JStr ''gymnast'')]
                    (Some ''duplicate key value violates unique constraint'')]\<rparr>)
   \<and> ''acct-1'' \<in> set (remote_accounts (calls (snd
        (signUp provider_env sample_clock ''new@x.com'' ''demo123'' ''A'' ''B'' new_account None
          (Some ''duplicate key value violates unique constraint'') (initial_world None)))))"
proof -
  have c: "isSupabaseConfigured provider_env" by (simp add: provider_env_def)
  have a: "su_error new_account = None \<and> su_user_id new_account = Some ''acct-1''
           \<and> ''acct-1'' \<noteq> []"
    by (simp add: new_account_def)
  show ?thesis
    using c a signUp_three_steps_no_rollback [OF c, where su = new_account
        and userId = "''acct-1''" and m = "''duplicate key value violates unique constraint''"
        and clk = sample_clock and email = "''new@x.com''" and password = "''demo123''"
        and firstName = "''A''" and lastName = "''B''" and w = "initial_world None"]
    by (simp add: initial_world_def)
qed

text \<open>
  Claim C10. With a provider configured and all three steps succeeding, \<^verbatim>\<open>signUp\<close>
  itself resolves without touching the profile, the identity or the persisted slot, and
  without clearing the loading flag it raised at entry: when it returns, \<^verbatim>\<open>isLoading\<close>
  is still true. Installing the profile is left to the change-notification handler.
\<close>

theorem signUp_success_leaves_state_to_handler:
  assumes "isSupabaseConfigured cfg"
    and "su_error su = None" "su_user_id su = Some userId" "userId \<noteq> []"
  shows "fst (signUp cfg clk email password firstName lastName su None None w) = Resolved
    \<and> user (snd (signUp cfg clk email password firstName lastName su None None w)) = user w
    \<and> authUser (snd (signUp cfg clk email password firstName lastName su None None w)) = authUser w
    \<and> demoUser_slot (snd (signUp cfg clk email password firstName lastName su None None w))
        = demoUser_slot w
    \<and> isLoading (snd (signUp cfg clk email password firstName lastName su None None w))
    \<and> error (snd (signUp cfg clk email password firstName lastName su None None w)) = None"
  using signUp_provider_steps [OF assms, of clk email password firstName lastName None None w]
  by simp

theorem signUp_success_leaves_state_to_handler_witness:
  "isSupabaseConfigured provider_env
   \<and> fst (signUp provider_env sample_clock ''new@x.com'' ''s3cret'' ''A'' ''B'' new_account
        None None authenticated_world) = Resolved
   \<and> user (snd (signUp provider_env sample_clock ''new@x.com'' ''s3cret'' ''A'' ''B'' new_account
        None None authenticated_world)) = stored_profile
   \<and> isLoading (snd (signUp provider_env sample_clock ''new@x.com'' ''s3cret'' ''A'' ''B''
        new_account None None authenticated_world))"
proof -
  have c: "isSupabaseConfigured provider_env" by (simp add: provider_env_def)
  have a: "su_error new_account = None" "su_user_id new_account = Some ''acct-1''"
    "''acct-1'' \<noteq> []"
    by (simp_all add: new_account_def)
  show ?thesis
    using c signUp_success_leaves_state_to_handler [OF c a, where clk = sample_clock
        and email = "''new@x.com''" and password = "''s3cret''"
        and firstName = "''A''" and lastName = "''B''" and w = authenticated_world]
    by (simp add: authenticated_world_def)
qed

section \<open>Logout and the end of a session\<close>

text \<open>
  Claim C2. From every state and for every answer of the provider, \<^verbatim>\<open>logout\<close>
  resolves; it empties the persisted slot, calls the provider's sign-out once, records
  a sign-out error in the error descriptor, and ends with profile and identity both
  null, that is, in the state \<open>Unauthenticated\<close>. The loading flag is not touched.
\<close>

theorem logout_always_unauthenticated:
  "fst (logout r w) = Resolved
   \<and> demoUser_slot (snd (logout r w)) = None
   \<and> calls (snd (logout r w)) = calls w @ [IO_signOut r]
   \<and> error (snd (logout r w)) = r
   \<and> user (snd (logout r w)) = JNull
   \<and> authUser (snd (logout r w)) = None
   \<and> Unauthenticated (snd (logout r w))
   \<and> isLoading (snd (logout r w)) = isLoading w"
  by (cases r) (simp_all add: logout_def record_call_def Unauthenticated_def)

theorem logout_always_unauthenticated_witness:
  "fst (logout (Some ''network unreachable'') authenticated_world) = Resolved
   \<and> Unauthenticated (snd (logout (Some ''network unreachable'') authenticated_world))
   \<and> demoUser_slot (snd (logout (Some ''network unreachable'') authenticated_world)) = None
   \<and> error (snd (logout (Some ''network unreachable'') authenticated_world))
       = Some ''network unreachable''"
  using logout_always_unauthenticated [of "Some ''network unreachable''" authenticated_world]
  by blast

text \<open>
  Claim C9. In every state, the handler that receives a change notification without a
  session clears identity and profile and the loading flag: the state becomes
  \<open>Unauthenticated\<close>.
\<close>

theorem session_ended_clears_state:
  "onAuthStateChange_handler None r w = w\<lparr>authUser := None, user := JNull, isLoading := False\<rparr>
   \<and> user (onAuthStateChange_handler None r w) = JNull
   \<and> authUser (onAuthStateChange_handler None r w) = None
   \<and> \<not> isLoading (onAuthStateChange_handler None r w)
   \<and> Unauthenticated (onAuthStateChange_handler None r w)"
  by (simp add: onAuthStateChange_handler_def Unauthenticated_def)

theorem session_ended_clears_state_witness:
  "Unauthenticated (onAuthStateChange_handler None \<lparr>gp_data = JNull, gp_error = None\<rparr>
      authenticated_world)
   \<and> \<not> isLoading (onAuthStateChange_handler None \<lparr>gp_data = JNull, gp_error = None\<rparr>
      authenticated_world)"
  using session_ended_clears_state [of "\<lparr>gp_data = JNull, gp_error = None\<rparr>" authenticated_world]
  by blast

section \<open>Login\<close>

text \<open>
  Claim C6. For every address \<open>E\<close> of the demo catalog, \<^verbatim>\<open>login(E, 'demo123')\<close>
  resolves without any outside call, installs the catalog entry of \<open>E\<close> as the
  profile, clears the loading flag and leaves exactly that profile in the persisted
  slot; the entry of \<^verbatim>\<open>coach@demo.com\<close> has role \<^verbatim>\<open>coach\<close> and gym
  \<^verbatim>\<open>demo-gym-id\<close>.
\<close>

theorem demo_login_enters_demo:
  assumes "E \<in> fst ` set (demoUsers cfg)"
  shows "fst (login cfg E ''demo123'' r w) = Resolved
         \<and> calls (snd (login cfg E ''demo123'' r w)) = calls w
         \<and> user (snd (login cfg E ''demo123'' r w)) = get_property (demoUsers cfg) E
         \<and> map_of (demoUsers cfg) E = Some (get_property (demoUsers cfg) E)
         \<and> \<not> isLoading (snd (login cfg E ''demo123'' r w))
         \<and> demoUser_slot (snd (login cfg E ''demo123'' r w))
             = Some (Serialized (get_property (demoUsers cfg) E))
         \<and> DemoActive (snd (login cfg E ''demo123'' r w))
         \<and> field (get_property (demoUsers cfg) ''coach@demo.com'') ''role'' = JStr ''coach''
         \<and> field (get_property (demoUsers cfg) ''coach@demo.com'') ''gym_id''
             = JStr ''demo-gym-id''"
proof -
  note t = catalog_entry_truthy [OF assms]
  note s = catalog_entry_stringify [OF assms]
  have result: "login cfg E ''demo123'' r w =
           (Resolved, w\<lparr>isLoading := False, error := None,
                         user := get_property (demoUsers cfg) E,
                         demoUser_slot := Some (Serialized (get_property (demoUsers cfg) E))\<rparr>)"
    using t s catalog_entry_object [OF assms] by (auto simp: login_def enter_demo_def)
  have own: "map_of (demoUsers cfg) E = Some (get_property (demoUsers cfg) E)"
    using assms unfolding catalog_keys by (auto simp: demoUsers_def get_property_def)
  have coach: "field (get_property (demoUsers cfg) ''coach@demo.com'') ''role'' = JStr ''coach''
         \<and> field (get_property (demoUsers cfg) ''coach@demo.com'') ''gym_id'' = JStr ''demo-gym-id''"
    by (simp add: demoUsers_def get_property_def field_def)
  show ?thesis using result own coach t by (simp add: DemoActive_def)
qed

theorem demo_login_enters_demo_witness:
  "''coach@demo.com'' \<in> fst ` set (demoUsers provider_env)
   \<and> fst (login provider_env ''coach@demo.com'' ''demo123'' None (initial_world None)) = Resolved
   \<and> DemoActive (snd (login provider_env ''coach@demo.com'' ''demo123'' None (initial_world None)))
   \<and> calls (snd (login provider_env ''coach@demo.com'' ''demo123'' None (initial_world None)))
       = calls (initial_world None)
   \<and> user (snd (login provider_env ''coach@demo.com'' ''demo123'' None (initial_world None)))
       = get_property (demoUsers provider_env) ''coach@demo.com''
   \<and> field (get_property (demoUsers provider_env) ''coach@demo.com'') ''role'' = JStr ''coach''"
proof -
  have k: "''coach@demo.com'' \<in> fst ` set (demoUsers provider_env)"
    by (simp add: demoUsers_def)
  show ?thesis
    using k demo_login_enters_demo [OF k, of None "initial_world None"]
    by blast
qed




section \<open>Operating without a provider\<close>

text \<open>
  Claim C4, as stated, fails: without a provider, \<^verbatim>\<open>login\<close> with credentials that
  are not demo credentials rejects with the message
  \<^verbatim>\<open>Supabase credentials are not configured.\<close>
\<close>

theorem unconfigured_login_counterexample:
  "\<not> isSupabaseConfigured demo_env
   \<and> fst (login demo_env ''unknown@x.com'' ''wrong'' None (initial_world None))
       = Rejected ''Supabase credentials are not configured.''"
  by (simp add: demo_env_def login_def Let_def demoUsers_def get_property_def object_prototype_functions_def)

text \<open>
  Claim C4, amended. Without a provider, \<^verbatim>\<open>signUp\<close> always resolves and makes no
  outside call. \<^verbatim>\<open>login\<close> makes no outside call either; it resolves exactly when
  the password is the demo password and the catalog lookup finds the address, and
  otherwise it stores \<^verbatim>\<open>Supabase credentials are not configured.\<close> in the error
  descriptor and rejects with that message.
\<close>

theorem unconfigured_login_and_signUp:
  assumes "\<not> isSupabaseConfigured cfg"
  shows "fst (signUp cfg clk email password firstName lastName r1 r2 r3 w) = Resolved
    \<and> calls (snd (signUp cfg clk email password firstName lastName r1 r2 r3 w)) = calls w
    \<and> (fst (login cfg email password r w) = Resolved
          \<longleftrightarrow> password = ''demo123'' \<and> truthy (get_property (demoUsers cfg) email))
    \<and> (fst (login cfg email password r w) \<noteq> Resolved \<longrightarrow>
          fst (login cfg email password r w) = Rejected ''Supabase credentials are not configured.''
          \<and> error (snd (login cfg email password r w))
              = Some ''Supabase credentials are not configured.'')
    \<and> calls (snd (login cfg email password r w)) = calls w"
  using assms by (simp add: signUp_def login_def enter_demo_def Let_def)

theorem unconfigured_login_and_signUp_witness:
  "\<not> isSupabaseConfigured demo_env
   \<and> fst (signUp demo_env sample_clock ''new@x.com'' ''pw'' ''A'' ''B'' new_account None None
        (initial_world None)) = Resolved
   \<and> fst (login demo_env ''new@x.com'' ''pw'' None (initial_world None))
       = Rejected ''Supabase credentials are not configured.''
   \<and> calls (snd (login demo_env ''new@x.com'' ''pw'' None (initial_world None)))
       = calls (initial_world None)"
proof -
  have c: "\<not> isSupabaseConfigured demo_env" by (simp add: demo_env_def)
  have p: "''pw'' \<noteq> ''demo123''" by simp
  show ?thesis
    using c p unconfigured_login_and_signUp [OF c, where clk = sample_clock
        and email = "''new@x.com''" and password = "''pw''" and firstName = "''A''"
        and lastName = "''B''" and ?r1.0 = new_account and ?r2.0 = None and ?r3.0 = None
        and r = None and w = "initial_world None"]
    by blast
qed




section \<open>Start-up\<close>

text \<open>
  Claim C8, as stated, fails: a slot text that is valid JSON but not a profile is
  installed as the profile without any check, and the slot keeps it.
\<close>

theorem parsable_slot_counterexample:
  "\<not> well_formed_profile (JObj [(''foo'', JStr ''bar'')])
   \<and> demoUser_slot (initialize None \<lparr>gp_data = JNull, gp_error = None\<rparr>
        (initial_world (Some (Serialized (JObj [(''foo'', JStr ''bar'')])))))
       = Some (Serialized (JObj [(''foo'', JStr ''bar'')]))
   \<and> user (initialize None \<lparr>gp_data = JNull, gp_error = None\<rparr>
        (initial_world (Some (Serialized (JObj [(''foo'', JStr ''bar'')])))))
       = JObj [(''foo'', JStr ''bar'')]
   \<and> \<not> Unauthenticated (initialize None \<lparr>gp_data = JNull, gp_error = None\<rparr>
        (initial_world (Some (Serialized (JObj [(''foo'', JStr ''bar'')])))))"
  by (simp add: well_formed_profile_def required_string_def initialize_def initial_world_def
      Unauthenticated_def)

text \<open>
  Claim C8, amended. For every non-empty slot text that \<^verbatim>\<open>JSON.parse\<close> rejects, the
  mount effect empties the slot and goes on exactly as it does with an absent slot, by
  asking the provider for a session; when the provider reports none, it ends in the
  state \<open>Unauthenticated\<close> with the loading flag cleared.
\<close>

theorem unparsable_slot_is_discarded:
  assumes "text_truthy t" and "JSON_parse t = None"
  shows "initialize session_user r (initial_world (Some t))
           = query_provider session_user r (initial_world None)
    \<and> demoUser_slot (initialize session_user r (initial_world (Some t))) = None
    \<and> initialize None r (initial_world (Some t))
        = \<lparr>user = JNull, authUser = None, isLoading = False, error = None,
           demoUser_slot = None, subscribed = True, calls = [IO_getSession None]\<rparr>
    \<and> Unauthenticated (initialize None r (initial_world (Some t)))"
proof -
  have a: "initialize session_user r (initial_world (Some t))
           = query_provider session_user r (initial_world None)" for session_user
    using assms by (simp add: initialize_def initial_world_def)
  have b: "query_provider None r (initial_world None)
        = \<lparr>user = JNull, authUser = None, isLoading = False, error = None,
           demoUser_slot = None, subscribed = True, calls = [IO_getSession None]\<rparr>"
    by (simp add: query_provider_def initial_world_def record_call_def)
  have c: "demoUser_slot (query_provider session_user r (initial_world None)) = None"
    by (simp add: query_provider_slot initial_world_def)
  show ?thesis using c by (simp add: a b Unauthenticated_def)
qed

theorem unparsable_slot_is_discarded_witness:
  "text_truthy (Unparsable ''{not json'') \<and> JSON_parse (Unparsable ''{not json'') = None
   \<and> demoUser_slot (initialize None \<lparr>gp_data = JNull, gp_error = None\<rparr>
        (initial_world (Some (Unparsable ''{not json'')))) = None
   \<and> Unauthenticated (initialize None \<lparr>gp_data = JNull, gp_error = None\<rparr>
        (initial_world (Some (Unparsable ''{not json''))))"
proof -
  have a: "text_truthy (Unparsable ''{not json'')" by simp
  have b: "JSON_parse (Unparsable ''{not json'') = None" by simp
  show ?thesis
    using a b unparsable_slot_is_discarded [OF a b, of None "\<lparr>gp_data = JNull, gp_error = None\<rparr>"]
    by blast
qed

section \<open>Where the identity comes from\<close>

text \<open>
  Claim C3, as stated, fails: a login with the demo password while a provider session
  is live installs and persists the demo profile and keeps the provider identity.
\<close>

theorem demo_profile_with_identity_counterexample:
  "user (run provider_env demo_login_over_session (initial_world None))
     = get_property (demoUsers provider_env) ''coach@demo.com''
   \<and> demoUser_slot (run provider_env demo_login_over_session (initial_world None))
     = Some (Serialized (get_property (demoUsers provider_env) ''coach@demo.com''))
   \<and> DemoActive (run provider_env demo_login_over_session (initial_world None))
   \<and> authUser (run provider_env demo_login_over_session (initial_world None))
     = Some (AuthUser ''u-1'')"
  by (simp add: run_def demo_login_over_session_def initial_world_def initialize_def
      query_provider_def loadUserProfile_def record_call_def stored_profile_def
      login_def enter_demo_def demoUsers_def get_property_def JSON_stringify_def
      DemoActive_def provider_env_def Let_def)

text \<open>
  Claim C3, amended. \<^verbatim>\<open>login\<close> and \<^verbatim>\<open>signUp\<close> never change the identity, on
  the demo paths as on the provider paths; and in every run from the initial state the
  identity is non-null only if the provider has reported a session, at mount or through
  a change notification.
\<close>

theorem identity_only_from_provider_session:
  "authUser (snd (login cfg email password r w)) = authUser w
   \<and> authUser (snd (signUp cfg clk email password firstName lastName r1 r2 r3 w)) = authUser w
   \<and> (authUser (run cfg evs (initial_world slot)) \<noteq> None
        \<longrightarrow> (\<exists>ev \<in> set evs. reports_session ev))"
  using run_identity [of cfg evs "initial_world slot"]
  by (simp add: login_identity signUp_identity initial_world_def)

theorem identity_only_from_provider_session_witness:
  "authUser (run provider_env demo_login_over_session (initial_world None)) \<noteq> None
   \<and> list_ex reports_session demo_login_over_session"
proof -
  have h: "authUser (run provider_env demo_login_over_session (initial_world None)) \<noteq> None"
    by (simp add: run_def demo_login_over_session_def initial_world_def initialize_def
        query_provider_def login_identity loadUserProfile_identity)
  show ?thesis
    using h identity_only_from_provider_session [where cfg = provider_env
        and evs = demo_login_over_session and slot = None]
    by (simp add: list_ex_iff)
qed

end
